theory Spec2Isabelle
  imports Complex_Main "HOL-Library.Monad_Syntax"
begin

section \<open>Exceptional points: the eigensystem helpers, the tracker and the waveguide model\<close>

text \<open>
  A shallow embedding of \<^verbatim>\<open>EP_Helpers.py\<close>, \<^verbatim>\<open>ep/base.py\<close> and
  \<^verbatim>\<open>ep/waveguide.py\<close>.

  Numbers. The source computes with IEEE floats and complex floats. Here a finite float is
  a \<^typ>\<open>real\<close> and a finite complex float a \<^typ>\<open>complex\<close>, with exact arithmetic:
  rounding and overflow are not modelled. What numpy does where real arithmetic has no
  value is modelled: a division by zero, a square root of a negative number and an inverse
  cosine outside \<open>[-1, 1]\<close> do not raise in numpy, they give a non-finite float (NaN or an
  infinity) and a warning. A possibly non-finite float is an \<^typ>\<open>real option\<close>, a possibly
  non-finite complex float a \<^typ>\<open>complex option\<close>, with \<open>None\<close> for the non-finite
  values; arithmetic on a non-finite operand is non-finite (the option monad).
\<close>

subsection \<open>Errors\<close>

datatype error =
    IndexError
  | TypeError
  | ValueError
  | ZeroDivisionError
  | LinAlgError
  | UnboundLocalError string
  | Exception string

subsection \<open>numpy primitives\<close>

type_synonym fl = "real option"
type_synonym cfl = "complex option"

definition np_sqrt :: "real \<Rightarrow> fl" where
  "np_sqrt x = (if x < 0 then None else Some (sqrt x))"

definition np_div :: "real \<Rightarrow> real \<Rightarrow> fl" where
  "np_div a b = (if b = 0 then None else Some (a / b))"

definition np_arccos :: "real \<Rightarrow> fl" where
  "np_arccos x = (if - 1 \<le> x \<and> x \<le> 1 then Some (arccos x) else None)"

definition np_cdiv :: "complex \<Rightarrow> complex \<Rightarrow> cfl" where
  "np_cdiv a b = (if b = 0 then None else Some (a / b))"

text \<open>
  \<^verbatim>\<open>trapz(y, dx=dx)\<close> of numpy on a one-dimensional array:
  \<^verbatim>\<open>(d * (y[1:] + y[:-1]) / 2.0).sum()\<close>. Both slices of an array with fewer than two
  entries are empty and the sum of an empty array is \<open>0.0\<close>: nothing is raised.
\<close>

definition trapz :: "real list \<Rightarrow> real \<Rightarrow> real" where
  "trapz y dx = sum_list (map2 (\<lambda>u v. dx * (u + v) / 2) (tl y) (butlast y))"

subsection \<open>\<^verbatim>\<open>EP_Helpers.c_trapz\<close>\<close>

text \<open>
  \<^verbatim>\<open>
  def c_trapz(f, dx, **kwargs):
      real_int = trapz(real(f), dx=dx, **kwargs)
      imag_int = trapz(imag(f), dx=dx, **kwargs)
      return real_int + 1j*imag_int
  \<close>
  The function has no \<^verbatim>\<open>raise\<close> and no check of its input; its result is a value of
  \<open>error + complex\<close> so that a claim that it rejects an input can be stated.
\<close>

definition c_trapz :: "complex list \<Rightarrow> real \<Rightarrow> error + complex" where
  "c_trapz f dx =
     (let real_int = trapz (map Re f) dx;
          imag_int = trapz (map Im f) dx
      in Inr (complex_of_real real_int + \<i> * complex_of_real imag_int))"

text \<open>
  The complex trapezoidal sum over the adjacent pairs of a sequence: what the two real
  integrals of \<^verbatim>\<open>c_trapz\<close> are compared with.
\<close>

fun ctrapz_sum :: "complex list \<Rightarrow> real \<Rightarrow> complex" where
  "ctrapz_sum (a # b # ys) dx = complex_of_real dx * (b + a) / 2 + ctrapz_sum (b # ys) dx"
| "ctrapz_sum ys dx = 0"

subsection \<open>\<^verbatim>\<open>EP_Helpers.c_eig\<close>\<close>

text \<open>
  A vector of length two is the pair of its components, the matrix \<^verbatim>\<open>H\<close> the pair of
  its rows, and a matrix of eigenvectors the pair of its columns: \<^verbatim>\<open>eVecs[:,0]\<close> and
  \<^verbatim>\<open>eVecs[:,1]\<close>.
\<close>

type_synonym cvec = "complex \<times> complex"
type_synonym cmat = "cvec \<times> cvec"

text \<open>What \<^verbatim>\<open>scipy.linalg.eig(H, left=True)\<close> returns: \<^verbatim>\<open>eVals, eVecs_l, eVecs_r\<close>.\<close>

type_synonym raw_eig = "(complex \<times> complex) \<times> cmat \<times> cmat"

text \<open>
  What \<^verbatim>\<open>c_eig\<close> returns: the eigenvalues, the left eigenvectors when \<^verbatim>\<open>left is True\<close>
  (their entries may be non-finite after the division), and the right eigenvectors.
\<close>

type_synonym c_eig_result = "(complex \<times> complex) \<times> ((cfl \<times> cfl) \<times> (cfl \<times> cfl)) option \<times> cmat"

definition conj_vec :: "cvec \<Rightarrow> cvec" where
  "conj_vec v = (cnj (fst v), cnj (snd v))"

text \<open>\<^verbatim>\<open>u.dot(v)\<close>: the sum of the products of the components, nothing conjugated.\<close>

definition dot :: "cvec \<Rightarrow> cvec \<Rightarrow> complex" where
  "dot u v = fst u * fst v + snd u * snd v"

text \<open>\<^verbatim>\<open>c_norm = lambda ev_l, ev_r: np.sqrt(ev_l.dot(ev_r))\<close>, a complex square root.\<close>

definition c_norm :: "cvec \<Rightarrow> cvec \<Rightarrow> complex" where
  "c_norm ev_l ev_r = csqrt (dot ev_l ev_r)"

text \<open>\<^verbatim>\<open>v /= z\<close> on a complex vector: every component is divided, nothing is checked.\<close>

definition div_vec :: "cvec \<Rightarrow> complex \<Rightarrow> cfl \<times> cfl" where
  "div_vec v z = (np_cdiv (fst v) z, np_cdiv (snd v) z)"

text \<open>
  \<^verbatim>\<open>
  def c_eig(H, left=False, **kwargs):
      eVals, eVecs_l, eVecs_r = eig(H, left=True, **kwargs)
      eVecs_l = eVecs_l.conj()
      c_norm = lambda ev_l, ev_r: np.sqrt(ev_l.dot(ev_r))
      for n in (0, 1):
          N = c_norm(eVecs_l[:,n],eVecs_r[:,n])
          eVecs_l[:,n] /= N**2
      if left is True:
          return eVals, eVecs_l, eVecs_r
      else:
          return eVals, eVecs_r
  \<close>
  The solver \<^verbatim>\<open>eig\<close> is scipy's and is a parameter; it may raise. Each pass of the loop
  reads and writes column \<open>n\<close> only.
\<close>

definition c_eig :: "(cmat \<Rightarrow> error + raw_eig) \<Rightarrow> cmat \<Rightarrow> bool \<Rightarrow> error + c_eig_result" where
  "c_eig eig H left =
     (case eig H of
        Inl e \<Rightarrow> Inl e
      | Inr (eVals, eVecs_l, eVecs_r) \<Rightarrow>
          (let l0 = conj_vec (fst eVecs_l);
               l1 = conj_vec (snd eVecs_l);
               N0 = c_norm l0 (fst eVecs_r);
               l0' = div_vec l0 (N0\<^sup>2);
               N1 = c_norm l1 (snd eVecs_r);
               l1' = div_vec l1 (N1\<^sup>2)
           in if left then Inr (eVals, Some (l0', l1'), eVecs_r)
              else Inr (eVals, None, eVecs_r)))"

text \<open>
  The specification's rescaling, to compare \<^verbatim>\<open>c_eig\<close> with: the left vector \<open>l\<close> divided
  by the biorthogonal product \<open>l \<cdot> r\<close>.
\<close>

definition rescale_left :: "cvec \<Rightarrow> cvec \<Rightarrow> cvec" where
  "rescale_left l r = (fst l / dot l r, snd l / dot l r)"

definition finite_vec :: "cvec \<Rightarrow> cfl \<times> cfl" where
  "finite_vec v = (Some (fst v), Some (snd v))"

subsection \<open>\<^verbatim>\<open>Base._get_c_eigensystem\<close>: removing the discontinuities\<close>

text \<open>
  The three arrays of the eigensystem. Sample \<open>n\<close> of \<^verbatim>\<open>eVals\<close> is the pair
  \<^verbatim>\<open>(eVals[n,0], eVals[n,1])\<close> of the two branches; sample \<open>n\<close> of \<^verbatim>\<open>eVecs_r\<close> is the pair
  \<^verbatim>\<open>(eVecs_r[n,:,0], eVecs_r[n,:,1])\<close> of the eigenvectors of the two branches.
\<close>

record eigensystem =
  eVals :: "(complex \<times> complex) list"
  eVecs_r :: "(cvec \<times> cvec) list"
  eVecs_l :: "(cvec \<times> cvec) list"





text \<open>\<^verbatim>\<open>np.angle\<close> of a vector, the difference of two such, and \<^verbatim>\<open>np.exp(+1j*phase)\<close>.\<close>

definition angle :: "cvec \<Rightarrow> real \<times> real" where
  "angle v = (Arg (fst v), Arg (snd v))"

definition exp_i :: "real \<times> real \<Rightarrow> cvec" where
  "exp_i p = (cis (fst p), cis (snd p))"

definition phase_between :: "cvec \<Rightarrow> cvec \<Rightarrow> cvec" where
  "phase_between u v = exp_i (fst (angle u) - fst (angle v), snd (angle u) - snd (angle v))"

definition mul_vec :: "cvec \<Rightarrow> cvec \<Rightarrow> cvec" where
  "mul_vec u v = (fst u * fst v, snd u * snd v)"

text \<open>\<^verbatim>\<open>e[k+1:,:,1] *= f\<close> and \<^verbatim>\<open>e[:k+1,:,1] *= f\<close>: branch 1 of a slice of the samples.\<close>

definition scale_branch1 :: "cvec \<Rightarrow> cvec \<times> cvec \<Rightarrow> cvec \<times> cvec" where
  "scale_branch1 f s = (fst s, mul_vec (snd s) f)"

definition scale_after :: "nat \<Rightarrow> cvec \<Rightarrow> (cvec \<times> cvec) list \<Rightarrow> (cvec \<times> cvec) list" where
  "scale_after k f e = take (k + 1) e @ map (scale_branch1 f) (drop (k + 1) e)"

definition scale_upto :: "nat \<Rightarrow> cvec \<Rightarrow> (cvec \<times> cvec) list \<Rightarrow> (cvec \<times> cvec) list" where
  "scale_upto k f e = map (scale_branch1 f) (take (k + 1) e) @ drop (k + 1) e"

text \<open>
  \<^verbatim>\<open>
  e[...,0], e[...,1] = (np.concatenate((e[:k+1,...,0], e[k+1:,...,1])),
                        np.concatenate((e[:k+1,...,1], e[k+1:,...,0])))
  \<close>
  Both concatenations are new arrays, built before either column is assigned.
\<close>

definition interchange :: "nat \<Rightarrow> ('a \<times> 'a) list \<Rightarrow> ('a \<times> 'a) list" where
  "interchange k e =
     zip (take (k + 1) (map fst e) @ drop (k + 1) (map snd e))
         (take (k + 1) (map snd e) @ drop (k + 1) (map fst e))"

text \<open>
  One pass of the loop \<^verbatim>\<open>for k in mask.nonzero()[0]\<close>. The four phases are computed
  from samples \<open>k\<close> and \<open>k+1\<close> before anything is written; reading sample \<open>k+1\<close> of an array
  that has none raises \<^verbatim>\<open>IndexError\<close>.
  \<^verbatim>\<open>
  phase_0_R = np.angle(eVecs_r[k,:,0]) - np.angle(eVecs_r[k+1,:,1])
  phase_0_L = np.angle(eVecs_l[k,:,0]) - np.angle(eVecs_l[k+1,:,1])
  phase_1_R = np.angle(eVecs_r[k+1,:,0]) - np.angle(eVecs_r[k,:,1])
  phase_1_L = np.angle(eVecs_l[k+1,:,0]) - np.angle(eVecs_l[k,:,1])
  eVecs_r[k+1:,:,1] *= np.exp(+1j*phase_0_R)
  eVecs_l[k+1:,:,1] *= np.exp(+1j*phase_0_L)
  eVecs_r[:k+1,:,1] *= np.exp(+1j*phase_1_R)
  eVecs_l[:k+1,:,1] *= np.exp(+1j*phase_1_L)
  for e in eVals, eVecs_r, eVecs_l: (the interchange)
  \<close>
\<close>

definition phase_correct :: "nat \<Rightarrow> (cvec \<times> cvec) list \<Rightarrow> (cvec \<times> cvec) list" where
  "phase_correct k e =
     (let phase_0 = phase_between (fst (e ! k)) (snd (e ! (k + 1)));
          phase_1 = phase_between (fst (e ! (k + 1))) (snd (e ! k))
      in scale_upto k phase_1 (scale_after k phase_0 e))"

definition correct_swap :: "nat \<Rightarrow> eigensystem \<Rightarrow> error + eigensystem" where
  "correct_swap k s =
     (if length (eVecs_r s) \<le> k + 1 \<or> length (eVecs_l s) \<le> k + 1 then Inl IndexError
      else Inr \<lparr> eVals = interchange k (eVals s),
                 eVecs_r = interchange k (phase_correct k (eVecs_r s)),
                 eVecs_l = interchange k (phase_correct k (eVecs_l s)) \<rparr>)"

fun correct_swaps :: "nat list \<Rightarrow> eigensystem \<Rightarrow> error + eigensystem" where
  "correct_swaps [] s = Inr s"
| "correct_swaps (k # ks) s =
     (case correct_swap k s of Inl e \<Rightarrow> Inl e | Inr s' \<Rightarrow> correct_swaps ks s')"




definition same_length :: "eigensystem \<Rightarrow> bool" where
  "same_length s = (length (eVecs_r s) = length (eVals s) \<and> length (eVecs_l s) = length (eVals s))"




subsection \<open>\<^verbatim>\<open>Base._get_gain_state\<close>\<close>

text \<open>\<^verbatim>\<open>e[:,::-1]\<close> and \<^verbatim>\<open>e[:,:,::-1]\<close>: the branch axis, of length two, reversed.\<close>

definition reverse_branches :: "eigensystem \<Rightarrow> eigensystem" where
  "reverse_branches s =
     \<lparr> eVals = map prod.swap (eVals s),
       eVecs_r = map prod.swap (eVecs_r s),
       eVecs_l = map prod.swap (eVecs_l s) \<rparr>"

text \<open>
  \<^verbatim>\<open>
  intE0, intE1  = [ c_trapz(self.eVals[:,n], dx=self.dt) for n in (0,1) ]
  if np.imag(intE0) < np.imag(intE1):
      self.eVals[:,:] = self.eVals[:,::-1]
      self.eVecs_r[:,:,:] = self.eVecs_r[:,:,::-1]
      self.eVecs_l[:,:,:] = self.eVecs_l[:,:,::-1]
  \<close>
  The arrays of the object are the state: the function returns them updated.
\<close>

definition get_gain_state :: "real \<Rightarrow> eigensystem \<Rightarrow> error + eigensystem" where
  "get_gain_state dt s =
     (case c_trapz (map fst (eVals s)) dt of
        Inl e \<Rightarrow> Inl e
      | Inr intE0 \<Rightarrow>
          (case c_trapz (map snd (eVals s)) dt of
             Inl e \<Rightarrow> Inl e
           | Inr intE1 \<Rightarrow>
               if Im intE0 < Im intE1 then Inr (reverse_branches s) else Inr s))"

subsection \<open>\<^verbatim>\<open>Base._get_init_state\<close>\<close>

definition add_vec :: "cvec \<Rightarrow> cvec \<Rightarrow> cvec" where
  "add_vec u v = (fst u + fst v, snd u + snd v)"

definition scale_vec :: "complex \<Rightarrow> cvec \<Rightarrow> cvec" where
  "scale_vec z v = (z * fst v, z * snd v)"

text \<open>
  \<^verbatim>\<open>
  if self.init_state == 'a':
      eVec0_r = self.eVecs_r[0,:,0]
  elif self.init_state == 'b':
      eVec0_r = self.eVecs_r[0,:,1]
  elif self.init_state == 'c':
      eVec0_r = self.eVecs_r[0,:,0] + self.eVecs_r[0,:,1]
      eVec0_l = self.eVecs_l[0,:,0] + self.eVecs_l[0,:,1]
      norm = lambda vl, vr: np.sqrt(vl.dot(vr))
      print norm(eVec0_l, eVec0_r)
      print norm(eVec0_r.conj(), eVec0_r)
      eVec0_r /= norm(eVec0_r.conj(), eVec0_r)
  elif self.init_state == 'd':
      phase = np.exp(1j*pi)
      eVec0_r = self.eVecs_r[0,:,0] + phase*self.eVecs_r[0,:,1]
      norm = lambda vl, vr: np.sqrt(vl.dot(vr))
      eVec0_r /= norm(eVec0_r.conj(), eVec0_r)
  return eVec0_r
  \<close>
  The chain has no \<^verbatim>\<open>else\<close>: with any other selector the \<^verbatim>\<open>return\<close> reads a local
  variable that was never assigned, and Python raises \<^verbatim>\<open>UnboundLocalError\<close> for
  \<^verbatim>\<open>eVec0_r\<close>. Sample 0 of an empty array raises \<^verbatim>\<open>IndexError\<close>. The two \<^verbatim>\<open>print\<close>
  statements write to the standard output only.
\<close>

definition get_init_state :: "string \<Rightarrow> eigensystem \<Rightarrow> error + (cfl \<times> cfl)" where
  "get_init_state init_state s =
     (if init_state = ''a'' then
        (case eVecs_r s of [] \<Rightarrow> Inl IndexError | r # _ \<Rightarrow> Inr (finite_vec (fst r)))
      else if init_state = ''b'' then
        (case eVecs_r s of [] \<Rightarrow> Inl IndexError | r # _ \<Rightarrow> Inr (finite_vec (snd r)))
      else if init_state = ''c'' then
        (case eVecs_r s of
           [] \<Rightarrow> Inl IndexError
         | r # _ \<Rightarrow>
             (case eVecs_l s of
                [] \<Rightarrow> Inl IndexError
              | l # _ \<Rightarrow>
                  (let eVec0_r = add_vec (fst r) (snd r)
                   in Inr (div_vec eVec0_r (csqrt (dot (conj_vec eVec0_r) eVec0_r))))))
      else if init_state = ''d'' then
        (case eVecs_r s of
           [] \<Rightarrow> Inl IndexError
         | r # _ \<Rightarrow>
             (let phase = cis pi;
                  eVec0_r = add_vec (fst r) (scale_vec phase (snd r))
              in Inr (div_vec eVec0_r (csqrt (dot (conj_vec eVec0_r) eVec0_r)))))
      else Inl (UnboundLocalError ''eVec0_r''))"

subsection \<open>\<^verbatim>\<open>Base.__init__\<close> and \<^verbatim>\<open>Waveguide.__init__\<close>\<close>

text \<open>
  The loop direction is documented as \<^verbatim>\<open>"-"\<close> or \<^verbatim>\<open>"+"\<close>; these two values are the
  type.
\<close>

datatype direction = Minus | Plus

text \<open>
  The keyword arguments that \<^verbatim>\<open>Waveguide.__init__\<close> hands on to \<^verbatim>\<open>Base.__init__\<close>
  (\<^verbatim>\<open>**kwargs\<close>), which are finite floats, strings and a flag.
\<close>

record kwargs =
  kw_x_EP :: real
  kw_y_EP :: real
  kw_x_R0 :: real
  kw_y_R0 :: real
  kw_loop_type :: string
  kw_loop_direction :: direction
  kw_init_state :: string
  kw_init_phase :: real
  kw_calc_adiabatic_state :: bool

text \<open>
  The scalar attributes of the object. The time grid \<^verbatim>\<open>t\<close>, \<^verbatim>\<open>dt\<close> and the arrays
  \<^verbatim>\<open>Psi\<close>, \<^verbatim>\<open>eVals\<close>, \<^verbatim>\<open>eVecs_r\<close>, \<^verbatim>\<open>eVecs_l\<close>, \<^verbatim>\<open>Psi_adiabatic\<close>, \<^verbatim>\<open>theta\<close> that
  \<^verbatim>\<open>Base.__init__\<close> allocates with \<^verbatim>\<open>tN = T * 5e2\<close> rows are not part of the record.
  An attribute that numpy computes may be non-finite.
\<close>

record base =
  self_T :: real
  self_init_state :: string
  self_loop_type :: string
  self_loop_direction :: direction
  self_w :: real
  self_x_EP :: fl
  self_x_R0 :: fl
  self_y_EP :: fl
  self_y_R0 :: fl
  self_init_phase :: real
  self_calc_adiabatic_state :: bool

record waveguide = base +
  self_d :: real
  self_L :: real
  self_eta :: real
  self_N :: real
  self_k0 :: fl
  self_k1 :: fl
  self_kr :: fl
  self_theta_boundary :: real

text \<open>
  \<^verbatim>\<open>
  self.T = T
  self.init_state = init_state
  self.loop_type = loop_type
  self.loop_direction = loop_direction
  self.tN = T * 5e2 * 1.
  self.t, self.dt = np.linspace(0, T, self.tN, retstep=True)
  self.w = 2.*pi/T
  if self.loop_direction == '+':
      self.w = -self.w
  self.x_EP, self.x_R0 = x_EP, x_R0
  self.y_EP, self.y_R0 = y_EP, y_R0
  self.init_phase = init_phase
  (the arrays)
  self.calc_adiabatic_state = calc_adiabatic_state
  \<close>
  \<open>T\<close> is a Python number: \<^verbatim>\<open>2.*pi/T\<close> raises \<^verbatim>\<open>ZeroDivisionError\<close> for \<open>T = 0\<close>, and
  numpy refuses a negative number of rows with \<^verbatim>\<open>ValueError\<close>.
\<close>

definition Base_init :: "real \<Rightarrow> kwargs \<Rightarrow> error + base" where
  "Base_init T kw =
     (if T = 0 then Inl ZeroDivisionError
      else if T * 500 \<le> - 1 then Inl ValueError
      else Inr \<lparr> self_T = T,
                 self_init_state = kw_init_state kw,
                 self_loop_type = kw_loop_type kw,
                 self_loop_direction = kw_loop_direction kw,
                 self_w = (if kw_loop_direction kw = Plus then - (2 * pi / T) else 2 * pi / T),
                 self_x_EP = Some (kw_x_EP kw),
                 self_x_R0 = Some (kw_x_R0 kw),
                 self_y_EP = Some (kw_y_EP kw),
                 self_y_R0 = Some (kw_y_R0 kw),
                 self_init_phase = kw_init_phase kw,
                 self_calc_adiabatic_state = kw_calc_adiabatic_state kw \<rparr>)"

text \<open>
  \<^verbatim>\<open>def k(self, n): return pi*np.sqrt(self.N**2 - n**2)\<close>, with \<^verbatim>\<open>self.N\<close> as its first
  argument.
\<close>

definition k :: "real \<Rightarrow> nat \<Rightarrow> fl" where
  "k N n = do { r \<leftarrow> np_sqrt (N\<^sup>2 - (real n)\<^sup>2); Some (pi * r) }"

text \<open>\<^verbatim>\<open>eta / (2.*np.sqrt(self.k0*self.k1 * (1. + np.cos(theta))))\<close>\<close>

definition x_EP_of :: "real \<Rightarrow> fl \<Rightarrow> fl \<Rightarrow> real \<Rightarrow> fl" where
  "x_EP_of eta k0 k1 theta =
     do { a \<leftarrow> k0; b \<leftarrow> k1;
          r \<leftarrow> np_sqrt (a * b * (1 + cos theta));
          np_div eta (2 * r) }"

text \<open>
  \<^verbatim>\<open>
  def __init__(self, L=100, d=1.0, eta=0.05, N=1.5, theta=0.0, **kwargs):
      Base.__init__(self, T=L, **kwargs)
      self.d = d
      self.L = L
      self.eta = eta
      self.N = N
      self.k0, self.k1 = self.k(0), self.k(1)
      self.kr = self.k0 - self.k1
      self.theta_boundary = theta
      self.x_EP = eta / (2.*np.sqrt(self.k0*self.k1 * (1. + np.cos(theta))))
      self.y_EP = 0.0
      self.x_R0 = self.x_EP
      self.y_R0 = self.x_EP
  \<close>
\<close>

definition Waveguide_init :: "real \<Rightarrow> real \<Rightarrow> real \<Rightarrow> real \<Rightarrow> real \<Rightarrow> kwargs \<Rightarrow> error + waveguide" where
  "Waveguide_init L d eta N theta kw =
     (case Base_init L kw of
        Inl e \<Rightarrow> Inl e
      | Inr b \<Rightarrow>
          (let k0 = k N 0;
               k1 = k N 1;
               kr = do { a \<leftarrow> k0; b \<leftarrow> k1; Some (a - b) };
               self = base.extend b (waveguide.fields d L eta N k0 k1 kr theta);
               self = self \<lparr> self_x_EP := x_EP_of eta (self_k0 self) (self_k1 self) theta \<rparr>;
               self = self \<lparr> self_y_EP := Some 0 \<rparr>;
               self = self \<lparr> self_x_R0 := self_x_EP self \<rparr>;
               self = self \<lparr> self_y_R0 := self_x_EP self \<rparr>
           in Inr self))"

subsection \<open>\<^verbatim>\<open>Waveguide.get_cycle_parameters\<close>\<close>

text \<open>
  \<^verbatim>\<open>
  if loop_type == "Circle":
      lambda1 = lambda t: x_EP + x_R0*np.cos(w*t + phi0)
      lambda2 = lambda t: y_EP + y_R0*np.sin(w*t + phi0)
  if loop_type == "Ellipse":
      lambda1 = lambda t: x_EP * (1. - np.cos(w*t))
      lambda2 = lambda t: y_EP - 8.*x_EP*np.sin(w*t) + phi0
  elif loop_type == "Varcircle":
      lambda1 = lambda t: x_EP * (1. - np.cos(w*t))
      lambda2 = lambda t: y_EP - x_EP*np.sin(w*t) + phi0
  elif loop_type == "Varcircle_phase":
      R = x_EP
      phase = np.arccos(1 - phi0/R)
      lambda1 = lambda t: R*(1. - np.cos(w*t + phase)) - phi0
      lambda2 = lambda t: y_EP - R*np.sin(w*t + phase)
  elif loop_type == "Bell":
      sign = -int(self.loop_direction + "1")
      lambda1 = lambda t: x_EP * (1. - np.cos(w*t))
      lambda2 = lambda t: 0.4 * sign * (sign*w*t/pi - 1) + phi0
  elif loop_type == "Constant":
      return x_EP, y_EP
  elif loop_type == "Constant_delta":
      return x_EP * (1.0 - np.cos(w*t)), y_EP
  else:
      raise Exception(("Error: loop_type {}"
                       "does not exist!").format(loop_type))
  \<close>
  Every branch but the last two ends with \<^verbatim>\<open>return lambda1(t), lambda2(t)\<close>. \<^verbatim>\<open>x_EP\<close> is
  a numpy float, so that \<^verbatim>\<open>phi0/R\<close> is numpy's division; \<^verbatim>\<open>np.arccos\<close> raises nothing.
\<close>

definition bell_sign :: "direction \<Rightarrow> real" where
  "bell_sign dir = (case dir of Minus \<Rightarrow> 1 | Plus \<Rightarrow> - 1)"

definition get_cycle_parameters :: "waveguide \<Rightarrow> real \<Rightarrow> error + (fl \<times> fl)" where
  "get_cycle_parameters self t =
     (let x_EP = self_x_EP self; x_R0 = self_x_R0 self;
          y_EP = self_y_EP self; y_R0 = self_y_R0 self;
          w = self_w self; phi0 = self_init_phase self;
          loop_type = self_loop_type self
      in
      if loop_type = ''Circle'' then
        Inr (do { a \<leftarrow> x_EP; r \<leftarrow> x_R0; Some (a + r * cos (w * t + phi0)) },
             do { b \<leftarrow> y_EP; r \<leftarrow> y_R0; Some (b + r * sin (w * t + phi0)) })
      else if loop_type = ''Ellipse'' then
        Inr (do { a \<leftarrow> x_EP; Some (a * (1 - cos (w * t))) },
             do { b \<leftarrow> y_EP; a \<leftarrow> x_EP; Some (b - 8 * a * sin (w * t) + phi0) })
      else if loop_type = ''Varcircle'' then
        Inr (do { a \<leftarrow> x_EP; Some (a * (1 - cos (w * t))) },
             do { b \<leftarrow> y_EP; a \<leftarrow> x_EP; Some (b - a * sin (w * t) + phi0) })
      else if loop_type = ''Varcircle_phase'' then
        (let R = x_EP;
             phase = do { r \<leftarrow> R; q \<leftarrow> np_div phi0 r; np_arccos (1 - q) }
         in Inr (do { r \<leftarrow> R; p \<leftarrow> phase; Some (r * (1 - cos (w * t + p)) - phi0) },
                 do { b \<leftarrow> y_EP; r \<leftarrow> R; p \<leftarrow> phase; Some (b - r * sin (w * t + p)) }))
      else if loop_type = ''Bell'' then
        (let sign = bell_sign (self_loop_direction self)
         in Inr (do { a \<leftarrow> x_EP; Some (a * (1 - cos (w * t))) },
                 Some (0.4 * sign * (sign * w * t / pi - 1) + phi0)))
      else if loop_type = ''Constant'' then
        Inr (x_EP, y_EP)
      else if loop_type = ''Constant_delta'' then
        Inr (do { a \<leftarrow> x_EP; Some (a * (1 - cos (w * t))) }, y_EP)
      else Inl (Exception (''Error: loop_type '' @ loop_type @ ''does not exist!'')))"

subsection \<open>\<^verbatim>\<open>Waveguide.H\<close>\<close>

text \<open>
  \<^verbatim>\<open>
  def H(self, t, x=None, y=None):
      if x is None and y is None:
          eps, delta = self.get_cycle_parameters(t)
      else:
          eps, delta = x, y
      B = (-1j * (np.exp(1j*self.theta_boundary) + 1) *
                    self.kr/2. * np.sqrt(self.k0/(2.*self.k1)))
      H11 = -self.k0 - 1j*self.eta/2.
      H12 = B*eps
      H21 = B.conj()*eps
      H22 = -self.k0 - delta - 1j*self.eta*self.k0/(2.*self.k1)
      H = np.array([[H11, H12],
                    [H21, H22]], dtype=complex)
      return H
  \<close>
  An argument that is not given is \<open>None\<close>; one that is given is a float, \<open>Some\<close> of a
  possibly non-finite value. With one coordinate given and the other not, the arithmetic on
  Python's \<^verbatim>\<open>None\<close> raises \<^verbatim>\<open>TypeError\<close>: in \<^verbatim>\<open>B*eps\<close>, or in \<^verbatim>\<open>-self.k0 - delta\<close>,
  which is evaluated before the quotient of \<^verbatim>\<open>H22\<close>.

  The divisions of \<^verbatim>\<open>B\<close> are numpy's and raise nothing. The quotient of \<^verbatim>\<open>H22\<close> is not:
  \<^verbatim>\<open>1j*self.eta\<close> is a Python complex, its product with the numpy float \<^verbatim>\<open>self.k0\<close> is
  again a Python complex, and Python's complex division raises \<^verbatim>\<open>ZeroDivisionError\<close> on a
  zero divisor, whatever the dividend; a NaN divisor gives NaN. The divisor \<^verbatim>\<open>2.*self.k1\<close>
  is zero for \<^verbatim>\<open>N = 1\<close>.
\<close>

type_synonym cfl_mat = "(cfl \<times> cfl) \<times> (cfl \<times> cfl)"

definition coupling_B :: "waveguide \<Rightarrow> cfl" where
  "coupling_B self =
     do { kr \<leftarrow> self_kr self; k0 \<leftarrow> self_k0 self; k1 \<leftarrow> self_k1 self;
          q \<leftarrow> np_div k0 (2 * k1);
          r \<leftarrow> np_sqrt q;
          Some (- \<i> * (cis (self_theta_boundary self) + 1) * complex_of_real kr / 2
                 * complex_of_real r) }"

definition py_complex_div :: "cfl \<Rightarrow> fl \<Rightarrow> error + cfl" where
  "py_complex_div z d =
     (case d of
        None \<Rightarrow> Inr None
      | Some r \<Rightarrow>
          if r = 0 then Inl ZeroDivisionError
          else Inr (do { c \<leftarrow> z; Some (c / complex_of_real r) }))"

definition H_at :: "waveguide \<Rightarrow> fl \<Rightarrow> fl \<Rightarrow> error + cfl_mat" where
  "H_at self eps delta =
     (let B = coupling_B self;
          H11 = do { k0 \<leftarrow> self_k0 self;
                     Some (- complex_of_real k0 - \<i> * complex_of_real (self_eta self) / 2) };
          H12 = do { b \<leftarrow> B; e \<leftarrow> eps; Some (b * complex_of_real e) };
          H21 = do { b \<leftarrow> B; e \<leftarrow> eps; Some (cnj b * complex_of_real e) }
      in case py_complex_div
                (do { k0 \<leftarrow> self_k0 self;
                      Some (\<i> * complex_of_real (self_eta self) * complex_of_real k0) })
                (do { k1 \<leftarrow> self_k1 self; Some (2 * k1) }) of
           Inl e \<Rightarrow> Inl e
         | Inr q \<Rightarrow>
             Inr ((H11, H12),
                  (H21, do { k0 \<leftarrow> self_k0 self; dl \<leftarrow> delta; c \<leftarrow> q;
                             Some (- complex_of_real k0 - complex_of_real dl - c) })))"

definition H :: "waveguide \<Rightarrow> real \<Rightarrow> fl option \<Rightarrow> fl option \<Rightarrow> error + cfl_mat" where
  "H self t x y =
     (if x = None \<and> y = None then
        (case get_cycle_parameters self t of
           Inl e \<Rightarrow> Inl e
         | Inr (eps, delta) \<Rightarrow> H_at self eps delta)
      else
        (case (x, y) of
           (Some eps, Some delta) \<Rightarrow> H_at self eps delta
         | _ \<Rightarrow> Inl TypeError))"

section \<open>Properties\<close>

subsection \<open>The trapezoidal rule\<close>

lemma trapz_Nil: "trapz [] dx = 0"
  by (simp add: trapz_def)

lemma trapz_single: "trapz [a] dx = 0"
  by (simp add: trapz_def)

lemma trapz_Cons2: "trapz (a # b # ys) dx = dx * (b + a) / 2 + trapz (b # ys) dx"
  by (simp add: trapz_def)

lemma trapz_Re_Im:
  "complex_of_real (trapz (map Re f) dx) + \<i> * complex_of_real (trapz (map Im f) dx)
     = ctrapz_sum f dx"
proof (induction f dx rule: ctrapz_sum.induct)
  case (1 a b ys dx)
  have step: "complex_of_real (dx * (Re b + Re a) / 2) + \<i> * complex_of_real (dx * (Im b + Im a) / 2)
          = complex_of_real dx * (b + a) / 2"
    by (simp add: complex_eq_iff)
  have "complex_of_real (trapz (map Re (a # b # ys)) dx)
          + \<i> * complex_of_real (trapz (map Im (a # b # ys)) dx)
        = (complex_of_real (dx * (Re b + Re a) / 2) + \<i> * complex_of_real (dx * (Im b + Im a) / 2))
          + (complex_of_real (trapz (map Re (b # ys)) dx)
             + \<i> * complex_of_real (trapz (map Im (b # ys)) dx))"
    by (simp only: list.map trapz_Cons2 of_real_add ring_distribs add_ac)
  also have "\<dots> = complex_of_real dx * (b + a) / 2 + ctrapz_sum (b # ys) dx"
    by (simp only: step "1.IH")
  finally show ?case
    by (simp only: ctrapz_sum.simps)
qed (simp_all add: trapz_Nil trapz_single)

subsection \<open>Claim C9\<close>

text \<open>
  C9, the part that holds: \<^verbatim>\<open>c_trapz\<close> has no error condition. For every complex
  sequence \<open>f\<close> (the empty one too) and every step \<open>dx\<close> it returns the trapezoidal integral
  of the real parts plus \<open>\<i>\<close> times the trapezoidal integral of the imaginary parts, which
  is the complex trapezoidal sum of \<open>f\<close>.
\<close>

theorem c_trapz_total:
  "c_trapz f dx = Inr (complex_of_real (trapz (map Re f) dx)
                        + \<i> * complex_of_real (trapz (map Im f) dx))
   \<and> c_trapz f dx = Inr (ctrapz_sum f dx)"
  unfolding c_trapz_def Let_def using trapz_Re_Im [of f dx] by simp

text \<open>
  C9 as stated fails on the empty sequence: \<^verbatim>\<open>c_trapz\<close> does not reject it, it returns
  \<open>0\<close>.
\<close>

theorem c_trapz_empty_not_rejected: "c_trapz [] 1 = Inr 0"
  by (simp add: c_trapz_def trapz_def)

subsection \<open>The eigensolver wrapper\<close>

lemma div_vec_nonzero: "z \<noteq> 0 \<Longrightarrow> div_vec v z = finite_vec (fst v / z, snd v / z)"
  by (simp add: div_vec_def np_cdiv_def finite_vec_def)

lemma div_vec_zero: "div_vec v 0 = (None, None)"
  by (simp add: div_vec_def np_cdiv_def)

lemma c_norm_power2: "(c_norm l r)\<^sup>2 = dot l r"
  by (simp add: c_norm_def)

lemma c_eig_left:
  "eig M = Inr (vals, vl, vr) \<Longrightarrow>
   c_eig eig M True =
     Inr (vals,
          Some (div_vec (conj_vec (fst vl)) (dot (conj_vec (fst vl)) (fst vr)),
                div_vec (conj_vec (snd vl)) (dot (conj_vec (snd vl)) (snd vr))),
          vr)"
  by (simp add: c_eig_def Let_def c_norm_power2)

lemma dot_rescale_left: "dot l r \<noteq> 0 \<Longrightarrow> dot (rescale_left l r) r = 1"
proof -
  assume nz: "dot l r \<noteq> 0"
  define p where "p = dot l r"
  have "dot (fst l / p, snd l / p) r = (fst l * fst r + snd l * snd r) / p"
    by (simp add: dot_def add_divide_distrib)
  also have "\<dots> = p / p" by (simp add: p_def dot_def)
  also have "\<dots> = 1" using nz by (simp add: p_def)
  finally show ?thesis by (simp add: rescale_left_def p_def)
qed

subsection \<open>Claim C3\<close>

text \<open>
  C3: when the underlying solve succeeds and both biorthogonal products
  \<open>left\<^sub>i \<cdot> right\<^sub>i\<close> (the left vector conjugated as \<^verbatim>\<open>c_eig\<close> does first) are nonzero,
  \<^verbatim>\<open>c_eig\<close> returns the eigenvalues and the right eigenvectors of the raw solve unchanged,
  with or without the left vectors, and each left vector is the conjugated raw one divided
  by its product, so that afterwards \<open>left\<^sub>i \<cdot> right\<^sub>i = 1\<close> for both \<open>i\<close>.
\<close>

theorem c_eig_biorthogonal:
  assumes "eig M = Inr (vals, vl, vr)"
    and "dot (conj_vec (fst vl)) (fst vr) \<noteq> 0"
    and "dot (conj_vec (snd vl)) (snd vr) \<noteq> 0"
  shows "c_eig eig M True =
           Inr (vals,
                Some (finite_vec (rescale_left (conj_vec (fst vl)) (fst vr)),
                      finite_vec (rescale_left (conj_vec (snd vl)) (snd vr))),
                vr)
         \<and> dot (rescale_left (conj_vec (fst vl)) (fst vr)) (fst vr) = 1
         \<and> dot (rescale_left (conj_vec (snd vl)) (snd vr)) (snd vr) = 1
         \<and> c_eig eig M False = Inr (vals, None, vr)"
proof -
  have "c_eig eig M False = Inr (vals, None, vr)"
    using assms(1) by (simp add: c_eig_def Let_def)
  moreover have "c_eig eig M True =
           Inr (vals,
                Some (finite_vec (rescale_left (conj_vec (fst vl)) (fst vr)),
                      finite_vec (rescale_left (conj_vec (snd vl)) (snd vr))),
                vr)"
    using assms by (simp add: c_eig_left div_vec_nonzero rescale_left_def)
  ultimately show ?thesis
    using assms(2,3) by (simp add: dot_rescale_left)
qed

text \<open>The theorem at a solve whose first product is \<open>3/5\<close> and whose second is \<open>1\<close>.\<close>

theorem c_eig_biorthogonal_witness:
  "c_eig (\<lambda>_. Inr ((1, 2), ((1, 0), (0, \<i>)), ((3 / 5, 4 / 5), (0, 1)))) ((1, 0), (0, 2)) True
     = Inr ((1, 2), Some ((Some (5 / 3), Some 0), (Some 0, Some 1)), ((3 / 5, 4 / 5), (0, 1)))"
  using c_eig_biorthogonal [of "\<lambda>_. Inr ((1, 2), ((1, 0), (0, \<i>)), ((3 / 5, 4 / 5), (0, 1)))"
      "((1, 0), (0, 2))" "(1, 2)" "((1, 0), (0, \<i>))" "((3 / 5, 4 / 5), (0, 1))"]
  by (simp add: dot_def conj_vec_def rescale_left_def finite_vec_def)


subsection \<open>Claim C4\<close>

text \<open>
  C4 as stated fails, at the matrix \<^verbatim>\<open>[[0, 1e100], [0, 0]]\<close>. The matrix is upper
  triangular, so LAPACK's \<^verbatim>\<open>zgeev\<close>, which \<^verbatim>\<open>scipy.linalg.eig\<close> calls, takes it as its own
  Schur form and computes the eigenvectors by back substitution (\<^verbatim>\<open>ztrevc\<close>), with the zero
  pivot replaced by \<^verbatim>\<open>smin = 2*safmin/ulp\<close>, about \<^verbatim>\<open>2.0e-292\<close>. The second right eigenvector
  is \<^verbatim>\<open>(-1e100/smin, 1)\<close> scaled to largest component 1, that is \<^verbatim>\<open>(1, -smin/1e100)\<close>, and
  \<^verbatim>\<open>2.0e-392\<close> is below the smallest subnormal double: the component is zero. The first left
  eigenvector loses its first component in the same way. The solve returns the
  eigenvalues \<open>(0, 0)\<close>, the left eigenvectors \<open>(0, 1)\<close>, \<open>(0, 1)\<close> and the right eigenvectors
  \<open>(1, 0)\<close>, \<open>(1, 0)\<close>: both biorthogonal products are exactly zero. (With the entry \<open>1\<close> in
  place of \<^verbatim>\<open>1e100\<close> the products are \<^verbatim>\<open>-smin\<close>, not zero.) The solver below is that result
  at that matrix. \<^verbatim>\<open>c_eig\<close> reports nothing; it returns left eigenvectors whose entries are
  all non-finite.
\<close>

theorem c_eig_zero_product_not_reported:
  "dot (conj_vec (0, 1)) (1, 0) = 0
   \<and> c_eig (\<lambda>M. if M = ((0, 10 ^ 100), (0, 0))
                  then Inr ((0, 0), ((0, 1), (0, 1)), ((1, 0), (1, 0)))
                  else Inl LinAlgError)
         ((0, 10 ^ 100), (0, 0)) True
       = Inr ((0, 0), Some ((None, None), (None, None)), ((1, 0), (1, 0)))"
  by (simp add: c_eig_def Let_def c_norm_def dot_def conj_vec_def div_vec_def np_cdiv_def)

text \<open>
  C4, as the code has it: when the solve succeeds and the biorthogonal product of an
  eigenpair is zero, \<^verbatim>\<open>c_eig\<close> divides by it all the same and returns, with no error, a
  left eigenvector for that pair whose two entries are non-finite.
\<close>

theorem c_eig_zero_product:
  assumes "eig M = Inr (vals, vl, vr)"
  shows "(dot (conj_vec (fst vl)) (fst vr) = 0 \<longrightarrow>
            (\<exists>l1. c_eig eig M True = Inr (vals, Some ((None, None), l1), vr)))
       \<and> (dot (conj_vec (snd vl)) (snd vr) = 0 \<longrightarrow>
            (\<exists>l0. c_eig eig M True = Inr (vals, Some (l0, (None, None)), vr)))"
  using assms by (auto simp: c_eig_left div_vec_zero)

text \<open>The theorem at the same matrix and solve, for the first eigenpair.\<close>

theorem c_eig_zero_product_witness:
  "\<exists>l1. c_eig (\<lambda>M. if M = ((0, 10 ^ 100), (0, 0))
                     then Inr ((0, 0), ((0, 1), (0, 1)), ((1, 0), (1, 0)))
                     else Inl LinAlgError)
            ((0, 10 ^ 100), (0, 0)) True
          = Inr ((0, 0), Some ((None, None), l1), ((1, 0), (1, 0)))"
  using c_eig_zero_product [of "\<lambda>M. if M = ((0, 10 ^ 100), (0, 0))
                     then Inr ((0, 0), ((0, 1), (0, 1)), ((1, 0), (1, 0)))
                     else Inl LinAlgError"
      "((0, 10 ^ 100), (0, 0))" "(0, 0)" "((0, 1), (0, 1))" "((1, 0), (1, 0))"]
  by (simp add: dot_def conj_vec_def)

subsection \<open>Slices, differences and the mask\<close>

















subsection \<open>The loop over the swap indices\<close>


lemma correct_swap_out_of_range:
  "same_length s \<Longrightarrow> length (eVals s) \<le> i + 1 \<Longrightarrow> correct_swap i s = Inl IndexError"
  by (simp add: correct_swap_def same_length_def)




lemma correct_swaps_append:
  "correct_swaps (ks @ [i]) s =
     (case correct_swaps ks s of Inl e \<Rightarrow> Inl e | Inr s' \<Rightarrow> correct_swap i s')"
  by (induction ks arbitrary: s) (auto split: sum.splits)








subsection \<open>Claim C1\<close>




subsection \<open>Continuity after the correction\<close>









subsection \<open>Claim C2\<close>



subsection \<open>The gain and loss states\<close>

lemma c_trapz_Inr: "c_trapz f dx = Inr (complex_of_real (trapz (map Re f) dx)
                        + \<i> * complex_of_real (trapz (map Im f) dx))"
  by (simp add: c_trapz_def Let_def)

lemma get_gain_state_eq:
  "get_gain_state dt s =
     Inr (if trapz (map Im (map fst (eVals s))) dt < trapz (map Im (map snd (eVals s))) dt
          then reverse_branches s else s)"
  by (simp add: get_gain_state_def c_trapz_Inr)

lemma eVals_reverse_branches:
  "map fst (eVals (reverse_branches s)) = map snd (eVals s)"
  "map snd (eVals (reverse_branches s)) = map fst (eVals s)"
  by (simp_all add: reverse_branches_def)

lemma get_gain_state_idem:
  assumes "get_gain_state dt s = Inr s'"
  shows "get_gain_state dt s' = Inr s'"
proof (cases "trapz (map Im (map fst (eVals s))) dt < trapz (map Im (map snd (eVals s))) dt")
  case True
  then have s': "s' = reverse_branches s"
    using assms by (simp only: get_gain_state_eq if_True sum.inject)
  have "\<not> trapz (map Im (map snd (eVals s))) dt < trapz (map Im (map fst (eVals s))) dt"
    using True by simp
  then show ?thesis
    by (simp only: get_gain_state_eq s' eVals_reverse_branches if_False)
next
  case False
  then have "s' = s"
    using assms by (simp only: get_gain_state_eq if_False sum.inject)
  with False show ?thesis
    by (simp only: get_gain_state_eq if_False)
qed

subsection \<open>Claim C5\<close>

text \<open>
  C5: with \<open>intE0\<close> and \<open>intE1\<close> the integrals of the two eigenvalue branches that
  \<^verbatim>\<open>c_trapz\<close> returns, \<^verbatim>\<open>_get_gain_state\<close> reverses the branches of the eigenvalues, of the
  right and of the left eigenvectors exactly when \<open>Im intE0 < Im intE1\<close>; when branch 0 has
  the larger or an equal imaginary part nothing changes; and applied to its own result it
  returns that result unchanged.
\<close>

theorem gain_state_selector:
  assumes "c_trapz (map fst (eVals s)) dt = Inr intE0"
    and "c_trapz (map snd (eVals s)) dt = Inr intE1"
  shows "get_gain_state dt s = Inr (if Im intE0 < Im intE1 then reverse_branches s else s)
       \<and> (Im intE1 \<le> Im intE0 \<longrightarrow> get_gain_state dt s = Inr s)
       \<and> eVals (reverse_branches s) = map prod.swap (eVals s)
       \<and> eVecs_r (reverse_branches s) = map prod.swap (eVecs_r s)
       \<and> eVecs_l (reverse_branches s) = map prod.swap (eVecs_l s)
       \<and> (\<exists>s'. get_gain_state dt s = Inr s' \<and> get_gain_state dt s' = Inr s')"
proof -
  have eq: "get_gain_state dt s = Inr (if Im intE0 < Im intE1 then reverse_branches s else s)"
    using assms by (simp add: get_gain_state_def)
  then have "Im intE1 \<le> Im intE0 \<longrightarrow> get_gain_state dt s = Inr s"
    by simp
  moreover have "\<exists>s'. get_gain_state dt s = Inr s' \<and> get_gain_state dt s' = Inr s'"
    using eq get_gain_state_idem by blast
  ultimately show ?thesis
    using eq by (simp add: reverse_branches_def)
qed

text \<open>The theorem on two samples whose branch 1 has the larger imaginary part.\<close>

theorem gain_state_selector_witness:
  "get_gain_state 1 \<lparr> eVals = [(0, \<i>), (0, \<i>)],
                        eVecs_r = [((1, 0), (0, 1)), ((1, 0), (0, 1))],
                        eVecs_l = [((1, 0), (0, 1)), ((1, 0), (0, 1))] \<rparr>
     = Inr \<lparr> eVals = [(\<i>, 0), (\<i>, 0)],
              eVecs_r = [((0, 1), (1, 0)), ((0, 1), (1, 0))],
              eVecs_l = [((0, 1), (1, 0)), ((0, 1), (1, 0))] \<rparr>"
proof -
  let ?s = "\<lparr> eVals = [(0, \<i>), (0, \<i>)],
                        eVecs_r = [((1, 0), (0, 1)), ((1, 0), (0, 1))],
                        eVecs_l = [((1, 0), (0, 1)), ((1, 0), (0, 1))] \<rparr>"
  have h0: "c_trapz (map fst (eVals ?s)) 1 = Inr 0"
    by (simp add: c_trapz_def trapz_def)
  have h1: "c_trapz (map snd (eVals ?s)) 1 = Inr \<i>"
    by (simp add: c_trapz_def trapz_def)
  from gain_state_selector [OF h0 h1] show ?thesis
    by (simp add: reverse_branches_def)
qed

subsection \<open>Claim C8\<close>

text \<open>
  C8, the code at the selector \<^verbatim>\<open>'e'\<close>: \<^verbatim>\<open>_get_init_state\<close> returns no state vector, but
  what it raises is Python's \<^verbatim>\<open>UnboundLocalError\<close> for its local variable
  \<^verbatim>\<open>eVec0_r\<close>, not an error that names the selector. The same holds for every selector
  other than the four.
\<close>

theorem get_init_state_unknown_selector:
  "get_init_state ''e'' s = Inl (UnboundLocalError ''eVec0_r'')"
  by (simp add: get_init_state_def)

lemma get_init_state_unknown:
  "init_state \<notin> {''a'', ''b'', ''c'', ''d''} \<Longrightarrow>
   get_init_state init_state s = Inl (UnboundLocalError ''eVec0_r'')"
  by (simp add: get_init_state_def)

subsection \<open>Claim C6\<close>

lemma H_at_k1_zero: "self_k1 self = Some 0 \<Longrightarrow> H_at self eps delta = Inl ZeroDivisionError"
  by (simp add: H_at_def Let_def py_complex_div_def)

lemma H_at_k1_nonzero:
  "self_k1 self = Some k1 \<Longrightarrow> k1 \<noteq> 0 \<Longrightarrow> \<exists>m. H_at self eps delta = Inr m"
  by (simp add: H_at_def Let_def py_complex_div_def)

text \<open>
  C6: for every time \<open>t\<close>, \<^verbatim>\<open>H(t)\<close> with no coordinates is \<^verbatim>\<open>H\<close> at the coordinates that
  \<^verbatim>\<open>get_cycle_parameters(t)\<close> returns, whatever time \<open>t'\<close> goes with them (the same matrix,
  or the same \<^verbatim>\<open>ZeroDivisionError\<close> where \<open>k1 = 0\<close>), and raises what
  \<^verbatim>\<open>get_cycle_parameters(t)\<close> raises; with both coordinates given the result is a function
  of the coordinates and the stored constants, the same at every time.
\<close>

theorem H_cycle_parameters:
  "(\<forall>x y. get_cycle_parameters self t = Inr (x, y) \<longrightarrow>
       H self t None None = H self t' (Some x) (Some y))
   \<and> (\<forall>e. get_cycle_parameters self t = Inl e \<longrightarrow> H self t None None = Inl e)
   \<and> H self t (Some x0) (Some y0) = H self t' (Some x0) (Some y0)
   \<and> H self t (Some x0) (Some y0) = H_at self x0 y0"
  by (simp add: H_def)

text \<open>The theorem on a waveguide with the loop \<^verbatim>\<open>"Constant"\<close>, where a matrix is returned.\<close>

theorem H_cycle_parameters_witness:
  "H \<lparr> self_T = 100, self_init_state = ''a'', self_loop_type = ''Constant'',
        self_loop_direction = Minus, self_w = 2 * pi / 100,
        self_x_EP = Some 1, self_x_R0 = Some 1, self_y_EP = Some 0, self_y_R0 = Some 1,
        self_init_phase = 0, self_calc_adiabatic_state = False,
        self_d = 1, self_L = 100, self_eta = 1 / 20, self_N = 3 / 2,
        self_k0 = Some 3, self_k1 = Some 2, self_kr = Some 1, self_theta_boundary = 0 \<rparr>
      7 None None
   = H \<lparr> self_T = 100, self_init_state = ''a'', self_loop_type = ''Constant'',
        self_loop_direction = Minus, self_w = 2 * pi / 100,
        self_x_EP = Some 1, self_x_R0 = Some 1, self_y_EP = Some 0, self_y_R0 = Some 1,
        self_init_phase = 0, self_calc_adiabatic_state = False,
        self_d = 1, self_L = 100, self_eta = 1 / 20, self_N = 3 / 2,
        self_k0 = Some 3, self_k1 = Some 2, self_kr = Some 1, self_theta_boundary = 0 \<rparr>
      0 (Some (Some 1)) (Some (Some 0))
   \<and> (\<exists>m. H \<lparr> self_T = 100, self_init_state = ''a'', self_loop_type = ''Constant'',
        self_loop_direction = Minus, self_w = 2 * pi / 100,
        self_x_EP = Some 1, self_x_R0 = Some 1, self_y_EP = Some 0, self_y_R0 = Some 1,
        self_init_phase = 0, self_calc_adiabatic_state = False,
        self_d = 1, self_L = 100, self_eta = 1 / 20, self_N = 3 / 2,
        self_k0 = Some 3, self_k1 = Some 2, self_kr = Some 1, self_theta_boundary = 0 \<rparr>
      7 None None = Inr m)"
proof -
  let ?w = "\<lparr> self_T = 100, self_init_state = ''a'', self_loop_type = ''Constant'',
        self_loop_direction = Minus, self_w = 2 * pi / 100,
        self_x_EP = Some 1, self_x_R0 = Some 1, self_y_EP = Some 0, self_y_R0 = Some 1,
        self_init_phase = 0, self_calc_adiabatic_state = False,
        self_d = 1, self_L = 100, self_eta = 1 / 20, self_N = 3 / 2,
        self_k0 = Some 3, self_k1 = Some 2, self_kr = Some 1, self_theta_boundary = 0 \<rparr>"
  have g: "get_cycle_parameters ?w 7 = Inr (Some 1, Some 0)"
    by (simp add: get_cycle_parameters_def)
  have m: "\<exists>m. H_at ?w (Some 1) (Some 0) = Inr m"
    by (rule H_at_k1_nonzero [of _ 2]) simp_all
  from H_cycle_parameters [of ?w 7 0 "Some 1" "Some 0"] g
  have eq: "H ?w 7 None None = H ?w 0 (Some (Some 1)) (Some (Some 0))"
    and same: "H ?w 7 (Some (Some 1)) (Some (Some 0)) = H ?w 0 (Some (Some 1)) (Some (Some 0))"
    and at: "H ?w 7 (Some (Some 1)) (Some (Some 0)) = H_at ?w (Some 1) (Some 0)"
    by blast+
  from m obtain m0 where "H_at ?w (Some 1) (Some 0) = Inr m0" by blast
  with eq same at have "H ?w 7 None None = Inr m0" by (simp only:)
  with eq show ?thesis by blast
qed

subsection \<open>Claim C7\<close>

text \<open>
  C7 as stated fails: with radius \<open>R = 1\<close> and initial phase \<open>3\<close>, so that
  \<open>\<bar>1 - 3/1\<bar> = 2 > 1\<close>, the loop \<^verbatim>\<open>"Varcircle_phase"\<close> raises nothing and returns a pair of
  coordinates, both non-finite.
\<close>

theorem varcircle_phase_no_error:
  "\<bar>1 - 3 / 1\<bar> > (1 :: real)
   \<and> get_cycle_parameters
       \<lparr> self_T = 100, self_init_state = ''a'', self_loop_type = ''Varcircle_phase'',
         self_loop_direction = Minus, self_w = 2 * pi / 100,
         self_x_EP = Some 1, self_x_R0 = Some 1, self_y_EP = Some 0, self_y_R0 = Some 1,
         self_init_phase = 3, self_calc_adiabatic_state = False,
         self_d = 1, self_L = 100, self_eta = 1 / 20, self_N = 3 / 2,
         self_k0 = Some 3, self_k1 = Some 2, self_kr = Some 1, self_theta_boundary = 0 \<rparr> 0
     = Inr (None, None)"
  by (simp add: get_cycle_parameters_def np_div_def np_arccos_def)

text \<open>
  C7, as the code has it: for the loop \<^verbatim>\<open>"Varcircle_phase"\<close> with a finite radius
  \<open>R \<noteq> 0\<close> and an initial phase with \<open>\<bar>1 - phase/R\<bar> > 1\<close>, \<^verbatim>\<open>get_cycle_parameters\<close>
  raises no error at any time: the inverse cosine is NaN and so are both coordinates
  returned.
\<close>

theorem varcircle_phase_nan:
  assumes "self_loop_type self = ''Varcircle_phase''"
    and "self_x_EP self = Some R"
    and "R \<noteq> 0"
    and "\<bar>1 - self_init_phase self / R\<bar> > 1"
  shows "get_cycle_parameters self t = Inr (None, None)"
proof -
  have "np_arccos (1 - self_init_phase self / R) = None"
    using assms(4) by (auto simp: np_arccos_def)
  then show ?thesis
    using assms(1-3) by (simp add: get_cycle_parameters_def np_div_def)
qed

text \<open>The theorem at radius \<open>2\<close> and initial phase \<open>-1\<close>.\<close>

theorem varcircle_phase_nan_witness:
  "get_cycle_parameters
       \<lparr> self_T = 100, self_init_state = ''a'', self_loop_type = ''Varcircle_phase'',
         self_loop_direction = Minus, self_w = 2 * pi / 100,
         self_x_EP = Some 2, self_x_R0 = Some 2, self_y_EP = Some 0, self_y_R0 = Some 2,
         self_init_phase = - 1, self_calc_adiabatic_state = False,
         self_d = 1, self_L = 100, self_eta = 1 / 20, self_N = 3 / 2,
         self_k0 = Some 3, self_k1 = Some 2, self_kr = Some 1, self_theta_boundary = 0 \<rparr> 5
     = Inr (None, None)"
  by (rule varcircle_phase_nan [of _ 2]) simp_all

subsection \<open>The constructor\<close>

lemma k_0: "k N 0 = Some (pi * sqrt (N\<^sup>2))"
  by (simp add: k_def np_sqrt_def)

lemma k_1: "1 \<le> N\<^sup>2 \<Longrightarrow> k N 1 = Some (pi * sqrt (N\<^sup>2 - 1))"
  by (simp add: k_def np_sqrt_def)

lemma x_EP_of_finite:
  assumes "1 < N\<^sup>2" and "cos theta \<noteq> - 1"
  shows "x_EP_of eta (k N 0) (k N 1) theta
           = Some (eta / (2 * sqrt (pi * sqrt (N\<^sup>2) * (pi * sqrt (N\<^sup>2 - 1)) * (1 + cos theta))))"
proof -
  define a where "a = pi * sqrt (N\<^sup>2)"
  define b where "b = pi * sqrt (N\<^sup>2 - 1)"
  have c: "0 < 1 + cos theta"
    using assms(2) cos_ge_minus_one [of theta] by linarith
  have "0 < N\<^sup>2" using assms(1) by linarith
  then have "0 < sqrt (N\<^sup>2)" by (simp only: real_sqrt_gt_zero)
  then have a: "0 < a" unfolding a_def by (intro mult_pos_pos pi_gt_zero)
  have "0 < N\<^sup>2 - 1" using assms(1) by linarith
  then have "0 < sqrt (N\<^sup>2 - 1)" by (simp only: real_sqrt_gt_zero)
  then have b: "0 < b" unfolding b_def by (intro mult_pos_pos pi_gt_zero)
  have pos: "0 < a * b * (1 + cos theta)"
    using a b c by (intro mult_pos_pos)
  then have "0 < sqrt (a * b * (1 + cos theta))"
    by (simp only: real_sqrt_gt_zero)
  then have nz: "2 * sqrt (a * b * (1 + cos theta)) \<noteq> 0"
    by linarith
  have ka: "k N 0 = Some a" unfolding a_def by (rule k_0)
  have kb: "k N 1 = Some b" unfolding b_def using assms(1) by (intro k_1) linarith
  have "x_EP_of eta (Some a) (Some b) theta = Some (eta / (2 * sqrt (a * b * (1 + cos theta))))"
  proof -
    have "\<not> a * b * (1 + cos theta) < 0" using pos by linarith
    then have "np_sqrt (a * b * (1 + cos theta)) = Some (sqrt (a * b * (1 + cos theta)))"
      by (simp only: np_sqrt_def if_False)
    moreover have "np_div eta (2 * sqrt (a * b * (1 + cos theta)))
                     = Some (eta / (2 * sqrt (a * b * (1 + cos theta))))"
      using nz by (simp only: np_div_def if_False)
    ultimately show ?thesis
      by (simp only: x_EP_of_def bind.bind_lunit)
  qed
  then show ?thesis
    unfolding ka kb unfolding a_def b_def .
qed

lemma Waveguide_init_ok:
  "L \<noteq> 0 \<Longrightarrow> \<not> L * 500 \<le> - 1 \<Longrightarrow> \<exists>self. Waveguide_init L d eta N theta kw = Inr self"
  by (simp add: Waveguide_init_def Base_init_def Let_def)

lemma Waveguide_init_fields:
  assumes "Waveguide_init L d eta N theta kw = Inr self"
  shows "self_x_EP self = x_EP_of eta (k N 0) (k N 1) theta"
    and "self_x_R0 self = self_x_EP self"
    and "self_y_R0 self = self_x_EP self"
    and "self_y_EP self = Some 0"
  using assms
  by (auto simp: Waveguide_init_def Let_def base.defs waveguide.defs split: sum.splits)

lemma Waveguide_init_discards:
  "Waveguide_init L d eta N theta (kw \<lparr> kw_x_EP := x, kw_y_EP := y, kw_x_R0 := rx, kw_y_R0 := ry \<rparr>)
     = Waveguide_init L d eta N theta kw"
  by (simp add: Waveguide_init_def Base_init_def Let_def base.defs waveguide.defs)

text \<open>
  A waveguide constructed with \<open>N = 1\<close> has \<open>k1 = 0\<close>, and its \<^verbatim>\<open>H\<close> raises
  \<^verbatim>\<open>ZeroDivisionError\<close> at every pair of coordinates.
\<close>

lemma Waveguide_init_k1:
  "Waveguide_init L d eta N theta kw = Inr self \<Longrightarrow> self_k1 self = k N 1"
  by (auto simp: Waveguide_init_def Let_def base.defs waveguide.defs split: sum.splits)

lemma H_raises_at_N1:
  assumes "Waveguide_init L d eta 1 theta kw = Inr self"
  shows "H self t (Some x0) (Some y0) = Inl ZeroDivisionError"
proof -
  have "self_k1 self = Some 0"
    using Waveguide_init_k1 [OF assms] by (simp add: k_def np_sqrt_def)
  then show ?thesis
    by (simp add: H_def H_at_k1_zero)
qed

subsection \<open>Claim C10\<close>

text \<open>
  C10: for every length \<open>L\<close> the constructor accepts and all other arguments, the
  constructed waveguide has \<^verbatim>\<open>x_EP = eta / (2 sqrt(k0 k1 (1 + cos theta)))\<close> as numpy
  computes it (a finite number, the formula over the reals, when \<open>N\<^sup>2 > 1\<close> and
  \<open>cos theta \<noteq> -1\<close>), \<^verbatim>\<open>x_R0 = y_R0 = x_EP\<close> and \<^verbatim>\<open>y_EP = 0\<close>; and whatever \<^verbatim>\<open>x_EP\<close>, \<^verbatim>\<open>y_EP\<close>,
  \<^verbatim>\<open>x_R0\<close>, \<^verbatim>\<open>y_R0\<close> the caller passes, the constructed object is the same.
\<close>

theorem Waveguide_init_overwrites:
  assumes "L \<noteq> 0" and "\<not> L * 500 \<le> - 1"
  shows "\<exists>self. Waveguide_init L d eta N theta kw = Inr self
           \<and> self_x_EP self = x_EP_of eta (k N 0) (k N 1) theta
           \<and> self_x_R0 self = self_x_EP self
           \<and> self_y_R0 self = self_x_EP self
           \<and> self_y_EP self = Some 0
           \<and> (1 < N\<^sup>2 \<and> cos theta \<noteq> - 1 \<longrightarrow>
                self_x_EP self
                  = Some (eta / (2 * sqrt (pi * sqrt (N\<^sup>2) * (pi * sqrt (N\<^sup>2 - 1)) * (1 + cos theta)))))
           \<and> (\<forall>x y rx ry.
                Waveguide_init L d eta N theta
                  (kw \<lparr> kw_x_EP := x, kw_y_EP := y, kw_x_R0 := rx, kw_y_R0 := ry \<rparr>) = Inr self)"
proof -
  obtain self where init: "Waveguide_init L d eta N theta kw = Inr self"
    using Waveguide_init_ok [OF assms] by blast
  note f = Waveguide_init_fields [OF init]
  have fin: "1 < N\<^sup>2 \<and> cos theta \<noteq> - 1 \<longrightarrow>
                self_x_EP self
                  = Some (eta / (2 * sqrt (pi * sqrt (N\<^sup>2) * (pi * sqrt (N\<^sup>2 - 1)) * (1 + cos theta))))"
    unfolding f(1) using x_EP_of_finite by blast
  have dis: "\<forall>x y rx ry.
                Waveguide_init L d eta N theta
                  (kw \<lparr> kw_x_EP := x, kw_y_EP := y, kw_x_R0 := rx, kw_y_R0 := ry \<rparr>) = Inr self"
    unfolding Waveguide_init_discards using init by blast
  show ?thesis
    by (rule exI [of _ self]) (intro conjI; fact init f fin dis)
qed

text \<open>The theorem at the default arguments, with an EP centre and radii passed in.\<close>

theorem Waveguide_init_overwrites_witness:
  "\<exists>self. Waveguide_init 100 1 (1 / 20) (3 / 2) 0
             \<lparr> kw_x_EP = 7, kw_y_EP = 8, kw_x_R0 = 9, kw_y_R0 = 10, kw_loop_type = ''Circle'',
               kw_loop_direction = Minus, kw_init_state = ''a'', kw_init_phase = 0,
               kw_calc_adiabatic_state = False \<rparr> = Inr self
         \<and> self_x_R0 self = self_x_EP self
         \<and> self_y_R0 self = self_x_EP self
         \<and> self_y_EP self = Some 0
         \<and> self_x_EP self
             = Some ((1 / 20) / (2 * sqrt (pi * sqrt ((3 / 2)\<^sup>2) * (pi * sqrt ((3 / 2)\<^sup>2 - 1)) * (1 + cos 0))))"
proof -
  have h1: "(100 :: real) \<noteq> 0" by simp
  have h2: "\<not> (100 :: real) * 500 \<le> - 1" by simp
  have h3: "1 < (3 / 2 :: real)\<^sup>2 \<and> cos (0 :: real) \<noteq> - 1" by (simp add: power2_eq_square)
  from Waveguide_init_overwrites [OF h1 h2, of 1 "1 / 20" "3 / 2" 0] h3
  show ?thesis by blast
qed

end
